theory Spec2Isabelle
  imports Main "HOL-Library.AList"
begin

section \<open>gatsby-plugin-page-creator: the hooks of gatsby-node.ts\<close>

text \<open>
  The development embeds the three hooks of
  \<^verbatim>\<open>packages/gatsby-plugin-page-creator/src/gatsby-node.ts\<close>:
  \<^verbatim>\<open>createPagesStatefully\<close> with its two watch handlers, the \<^verbatim>\<open>gatsbyPath\<close> resolver built
  by \<^verbatim>\<open>setFieldsOnGraphQLNodeType\<close>, and the collection scan of \<^verbatim>\<open>onPreInit\<close>.
  Everything the file imports or receives as an argument (the file system, the page
  store and its actions, the page wrapper, the GraphQL parser, the node lookup) is a
  field of the record \<open>host\<close>, so that every definition below holds for any behaviour of
  these collaborators. What a claim says of a collaborator that is not part of the file
  is not decided here.
\<close>

subsection \<open>Data\<close>

text \<open>A page of \<^verbatim>\<open>store.getState().pages\<close>: its route and the absolute path of its component.\<close>

record page =
  path :: string
  component :: string

text \<open>
  \<^verbatim>\<open>reporter.panic({ id, context })\<close> and the other reports of the error map: the id of
  the error-map entry and the text of its context (\<^verbatim>\<open>sourceMessage\<close>, \<^verbatim>\<open>queryString\<close>).
\<close>

datatype diagnostic = Diagnostic string string

text \<open>
  \<^verbatim>\<open>IOptions\<close>. A field the caller leaves out is \<open>None\<close>; \<^verbatim>\<open>pathCheck\<close> then takes its
  default \<^verbatim>\<open>true\<close> from the parameter list.
\<close>

record options =
  pagesPath :: "string option"
  pathCheck :: "bool option"
  ignore :: "string list"

text \<open>The GraphQL document that \<^verbatim>\<open>parse\<close> returns, as far as the hooks read it.\<close>

datatype selection =
    Field string "selection list"
  | FragmentSpread string
  | InlineFragment "selection list"

datatype definition_node =
    OperationDefinition "selection list"
  | FragmentDefinition "selection list"
  | TypeSystemDefinition

type_synonym document = "definition_node list"

text \<open>
  JavaScript values and objects. An object lives in the heap at an address; its own
  enumerable properties are an association list in insertion order. A heap is a list of
  objects, the address being the index, so that allocation is \<open>length\<close>.
\<close>

type_synonym addr = nat

datatype jsval =
    JUndefined
  | JNull
  | JBool bool
  | JNumber int
  | JString string
  | JRef addr

type_synonym obj = "(string \<times> jsval) list"

type_synonym heap = "obj list"

text \<open>
  The collaborators, by the names the hooks call them:
  \<^item> \<^verbatim>\<open>existsSync\<close> of fs-exists-cached; \<^verbatim>\<open>glob\<close> of globby, from a pattern and the
    \<^verbatim>\<open>cwd\<close> option to the relative paths found; \<^verbatim>\<open>systemPath.resolve(process.cwd(), _)\<close>
    and \<^verbatim>\<open>systemPath.join\<close>; \<^verbatim>\<open>require.resolve\<close>;
  \<^item> \<^verbatim>\<open>createPath\<close> of gatsby-page-utils, from a relative path to a route;
  \<^item> \<^verbatim>\<open>createPage\<close> of create-page-wrapper, called with the file, the pages
    directory and the ignore patterns, and \<^verbatim>\<open>actions.deletePage\<close>, both acting on the
    pages of the store;
  \<^item> \<^verbatim>\<open>collectionExtractQueryString\<close>, which returns a query string or nothing and may
    report to the reporter on the way; \<^verbatim>\<open>parse\<close> of graphql;
  \<^item> \<^verbatim>\<open>getNode\<close>, \<^verbatim>\<open>validatePathQuery\<close> and \<^verbatim>\<open>derivePath\<close> of the resolver.

  A result \<open>string + 'a\<close> is a call that may throw: \<open>Inl\<close> carries the \<^verbatim>\<open>message\<close> of the
  exception. \<^verbatim>\<open>validatePathQuery\<close> returns nothing or throws, so its result is the
  message, if any. The path functions of Node, the file enumeration, \<^verbatim>\<open>createPath\<close> and
  the action \<^verbatim>\<open>deletePage\<close> are total.
\<close>

record host =
  existsSync :: "string \<Rightarrow> bool"
  glob :: "string \<Rightarrow> string \<Rightarrow> string list"
  resolve :: "string \<Rightarrow> string"
  join :: "string \<Rightarrow> string \<Rightarrow> string"
  createPath :: "string \<Rightarrow> string"
  createPage :: "string \<Rightarrow> string \<Rightarrow> string list \<Rightarrow> page list \<Rightarrow> string + page list"
  deletePage :: "page \<Rightarrow> page list \<Rightarrow> page list"
  requireResolve :: "string \<Rightarrow> string + string"
  collectionExtractQueryString :: "string \<Rightarrow> diagnostic list \<times> string option"
  parse :: "string \<Rightarrow> string + document"
  getNode :: "string \<Rightarrow> jsval"
  validatePathQuery :: "string \<Rightarrow> string list \<Rightarrow> string option"
  derivePath :: "string \<Rightarrow> heap \<Rightarrow> addr \<Rightarrow> string + string"

subsection \<open>createPagesStatefully\<close>

text \<open>
  What the closure of the two watch handlers holds, together with the page store:
  \<^verbatim>\<open>knownFiles\<close>, \<^verbatim>\<open>pagesDirectory\<close>, \<^verbatim>\<open>ignore\<close>, and the two arguments
  \<^verbatim>\<open>watchDirectory\<close> was started with.
\<close>

record engine =
  pages :: "page list"
  knownFiles :: "string set"
  pagesDirectory :: string
  ignored :: "string list"
  watchPath :: string
  watchGlob :: string

text \<open>
  A session that stops does so in \<^verbatim>\<open>reporter.panic\<close>, which is fatal and does not return
  to the hook: the result is the diagnostic and the page store as it was at that moment.
\<close>

type_synonym 'a session = "(diagnostic \<times> page list) + 'a"

definition newline :: string where
  "newline = [CHR 0x0A]"

definition pathRequired :: string where
  \<open>pathRequired =
     ''"path" is a required option for gatsby-plugin-page-creator'' @ newline @ newline @
     ''See docs here - https://www.gatsbyjs.org/plugins/gatsby-plugin-page-creator/''\<close>

definition pathDoesNotExist :: "string \<Rightarrow> string" where
  "pathDoesNotExist p =
     ''The path passed to gatsby-plugin-page-creator does not exist on your file system:'' @
     newline @ newline @ p @ newline @ newline @
     ''Please pick a path to an existing directory.''"

text \<open>\<^verbatim>\<open>Array.prototype.join\<close> on strings.\<close>

fun joinWith :: "string \<Rightarrow> string list \<Rightarrow> string" where
  "joinWith sep [] = []"
| "joinWith sep [x] = x"
| "joinWith sep (x # y # ys) = x @ sep @ joinWith sep (y # ys)"

text \<open>
  \<^verbatim>\<open>files.forEach(file => createPage(file, pagesDirectory, ...))\<close>: the first call that
  throws ends the loop, the pages created before it stay in the store.
\<close>

fun createPages ::
  "host \<Rightarrow> string \<Rightarrow> string list \<Rightarrow> string list \<Rightarrow> page list \<Rightarrow> (string \<times> page list) + page list"
where
  "createPages h dir ign [] ps = Inr ps"
| "createPages h dir ign (f # fs) ps =
     (case createPage h f dir ign ps of
        Inl e \<Rightarrow> Inl (e, ps)
      | Inr ps' \<Rightarrow> createPages h dir ign fs ps')"

definition createPagesStatefully ::
  "host \<Rightarrow> page list \<Rightarrow> string list \<Rightarrow> options \<Rightarrow> engine session"
where
  "createPagesStatefully h store extensions opts =
     (let exts = joinWith '','' (map (drop 1) extensions) in
      case pagesPath opts of
        None \<Rightarrow> Inl (Diagnostic ''1'' pathRequired, store)
      | Some pagesPath' \<Rightarrow>
          if pagesPath' = [] then Inl (Diagnostic ''1'' pathRequired, store)
          else if (case pathCheck opts of None \<Rightarrow> True | Some b \<Rightarrow> b)
                  \<and> \<not> existsSync h pagesPath'
          then Inl (Diagnostic ''1'' (pathDoesNotExist pagesPath'), store)
          else
            (let pagesDirectory' = resolve h pagesPath';
                 pagesGlob = ''**/*.{'' @ exts @ ''}'';
                 files = glob h pagesGlob pagesPath'
             in (case createPages h pagesDirectory' (ignore opts) files store of
                   Inl (e, ps) \<Rightarrow> Inl (Diagnostic ''1'' e, ps)
                 | Inr ps \<Rightarrow>
                     Inr \<lparr>pages = ps, knownFiles = set files,
                          pagesDirectory = pagesDirectory', ignored = ignore opts,
                          watchPath = pagesPath', watchGlob = pagesGlob\<rparr>)))"

text \<open>
  The handler of an added path. An exception of \<^verbatim>\<open>createPage\<close> is caught and ends the
  session in a panic; the path is then not added.
\<close>

definition onFileAdded :: "host \<Rightarrow> engine \<Rightarrow> string \<Rightarrow> engine session" where
  "onFileAdded h e addedPath =
     (if addedPath \<notin> knownFiles e then
        (case createPage h addedPath (pagesDirectory e) (ignored e) (pages e) of
           Inl msg \<Rightarrow> Inl (Diagnostic ''1'' msg, pages e)
         | Inr ps \<Rightarrow> Inr (e\<lparr>pages := ps, knownFiles := insert addedPath (knownFiles e)\<rparr>))
      else Inr e)"

text \<open>
  The handler of a removed path. \<^verbatim>\<open>forEach\<close> walks the pages of the store as they were
  read; every page of the removed component issues the same \<^verbatim>\<open>deletePage\<close> call, whose
  route is \<^verbatim>\<open>createPath(removedPath)\<close> and not the route of the page found. No call
  inside the \<^verbatim>\<open>try\<close> is one that may throw, so the handler always reaches
  \<^verbatim>\<open>knownFiles.delete\<close>.
\<close>

definition deleteMatching :: "host \<Rightarrow> string \<Rightarrow> string \<Rightarrow> page list \<Rightarrow> page list" where
  "deleteMatching h removedPath componentPath store =
     foldl (\<lambda>ps pg.
        if component pg = componentPath
        then deletePage h \<lparr>path = createPath h removedPath, component = componentPath\<rparr> ps
        else ps) store store"

definition onFileRemoved :: "host \<Rightarrow> engine \<Rightarrow> string \<Rightarrow> engine session" where
  "onFileRemoved h e removedPath =
     (let componentPath = join h (pagesDirectory e) removedPath;
          ps = deleteMatching h removedPath componentPath (pages e)
      in Inr (e\<lparr>pages := ps, knownFiles := knownFiles e - {removedPath}\<rparr>))"

text \<open>The watch events, handled one after the other in the order delivered.\<close>

datatype event = Added string | Removed string

fun handleEvent :: "host \<Rightarrow> engine \<Rightarrow> event \<Rightarrow> engine session" where
  "handleEvent h e (Added p) = onFileAdded h e p"
| "handleEvent h e (Removed p) = onFileRemoved h e p"

fun processEvents :: "host \<Rightarrow> engine \<Rightarrow> event list \<Rightarrow> engine session" where
  "processEvents h e [] = Inr e"
| "processEvents h e (ev # evs) =
     (case handleEvent h e ev of
        Inl d \<Rightarrow> Inl d
      | Inr e' \<Rightarrow> processEvents h e' evs)"

subsection \<open>The page registry\<close>

text \<open>
  Modelled from the spec: the external page registry behind \<^verbatim>\<open>actions.createPage\<close> and
  \<^verbatim>\<open>actions.deletePage\<close>, which is not part of gatsby-node.ts. A generated page is
  identified by its route and its owning file, at most one page exists per such pair,
  and create and delete are two idempotent calls that take a route and an owning file.
\<close>

definition registryCreate :: "page \<Rightarrow> page list \<Rightarrow> page list" where
  "registryCreate pg ps = (if pg \<in> set ps then ps else ps @ [pg])"

definition registryDelete :: "page \<Rightarrow> page list \<Rightarrow> page list" where
  "registryDelete pg ps = filter (\<lambda>q. q \<noteq> pg) ps"

subsection \<open>The gatsbyPath resolver of setFieldsOnGraphQLNodeType\<close>

text \<open>The own properties of the object at an address; no object, no properties.\<close>

definition propertiesOf :: "heap \<Rightarrow> addr \<Rightarrow> obj" where
  "propertiesOf hp a = (if a < length hp then hp ! a else [])"

text \<open>A property read \<^verbatim>\<open>o.k\<close>: \<^verbatim>\<open>undefined\<close> when the object has no such property.\<close>

definition getProp :: "heap \<Rightarrow> addr \<Rightarrow> string \<Rightarrow> jsval" where
  "getProp hp a k = (case map_of (propertiesOf hp a) k of None \<Rightarrow> JUndefined | Some v \<Rightarrow> v)"

text \<open>
  An assignment \<^verbatim>\<open>o.k = v\<close>: the property keeps its place when the object has it and
  is added last otherwise.
\<close>

definition setProp :: "heap \<Rightarrow> addr \<Rightarrow> string \<Rightarrow> jsval \<Rightarrow> heap" where
  "setProp hp a k v = (if a < length hp then hp[a := AList.update k v (hp ! a)] else hp)"

text \<open>
  \<^verbatim>\<open>resolve(source, { filePath })\<close>. The object literal \<^verbatim>\<open>{ ...source }\<close> is a new object
  at the next free address, holding the properties of \<^verbatim>\<open>source\<close>. An exception of
  \<^verbatim>\<open>validatePathQuery\<close> or \<^verbatim>\<open>derivePath\<close> leaves the resolver as it is thrown, since
  the \<^verbatim>\<open>try\<close> of the hook encloses the construction of the field and not its call.
  The node lookup and the two path functions only read the heap.
\<close>

definition gatsbyPath ::
  "host \<Rightarrow> string list \<Rightarrow> heap \<Rightarrow> addr \<Rightarrow> string \<Rightarrow> (string + string) \<times> heap"
where
  "gatsbyPath h extensions hp source filePath =
     (let sourceCopy = length hp;
          hp1 = hp @ [propertiesOf hp source];
          hp2 = (case getProp hp1 source ''parent'' of
                   JString ident \<Rightarrow> setProp hp1 sourceCopy ''parent'' (getNode h ident)
                 | _ \<Rightarrow> hp1)
      in (case validatePathQuery h filePath extensions of
            Some msg \<Rightarrow> (Inl msg, hp2)
          | None \<Rightarrow> (derivePath h filePath hp2 sourceCopy, hp2)))"

subsection \<open>onPreInit: the scan for collection templates\<close>

text \<open>
  The module-level \<^verbatim>\<open>knownCollections\<close> map, and the diagnostics that reached the
  reporter without ending the run.
\<close>

record registry =
  knownCollections :: "string \<rightharpoonup> string"
  reported :: "diagnostic list"

definition selectionSetOf :: "definition_node \<Rightarrow> selection list option" where
  "selectionSetOf d =
     (case d of
        OperationDefinition sels \<Rightarrow> Some sels
      | FragmentDefinition sels \<Rightarrow> Some sels
      | TypeSystemDefinition \<Rightarrow> None)"

text \<open>
  \<^verbatim>\<open>ast.definitions[0].selectionSet.selections[0].name.value\<close>. A link that is missing
  makes the next property read throw a TypeError.
\<close>

definition firstSelectionName :: "document \<Rightarrow> string + string" where
  "firstSelectionName ast =
     (case ast of
        [] \<Rightarrow> Inl ''TypeError: definitions[0] is undefined''
      | d # _ \<Rightarrow>
          (case selectionSetOf d of
             None \<Rightarrow> Inl ''TypeError: selectionSet is undefined''
           | Some [] \<Rightarrow> Inl ''TypeError: selections[0] is undefined''
           | Some (Field name _ # _) \<Rightarrow> Inr name
           | Some (FragmentSpread name # _) \<Rightarrow> Inr name
           | Some (InlineFragment _ # _) \<Rightarrow> Inl ''TypeError: name is undefined''))"

text \<open>
  The callback of \<^verbatim>\<open>files.map\<close> for one template file. \<open>Inl\<close> is the exception that
  rejects the promise.
\<close>

definition registerCollection ::
  "host \<Rightarrow> string \<Rightarrow> registry \<Rightarrow> string \<Rightarrow> string + registry"
where
  "registerCollection h pagesPath' st relativePath =
     (case requireResolve h (join h pagesPath' relativePath) of
        Inl msg \<Rightarrow> Inl msg
      | Inr absolutePath \<Rightarrow>
          (case collectionExtractQueryString h absolutePath of
             (reports, extracted) \<Rightarrow>
               (let st' = st\<lparr>reported := reported st @ reports\<rparr> in
                case extracted of
                  None \<Rightarrow> Inr st'
                | Some queryString \<Rightarrow>
                    if queryString = [] then Inr st'
                    else
                      (case parse h queryString of
                         Inl msg \<Rightarrow> Inl msg
                       | Inr ast \<Rightarrow>
                           (case firstSelectionName ast of
                              Inl msg \<Rightarrow> Inl msg
                            | Inr name \<Rightarrow>
                                Inr (st'\<lparr>knownCollections :=
                                       (knownCollections st')(name \<mapsto> relativePath)\<rparr>))))))"

text \<open>
  \<^verbatim>\<open>Promise.all(files.map(...))\<close>, with the files registered in the order of the list;
  the first rejection is the one the \<^verbatim>\<open>catch\<close> sees.
\<close>

fun registerAll :: "host \<Rightarrow> string \<Rightarrow> string list \<Rightarrow> registry \<Rightarrow> string + registry" where
  "registerAll h pagesPath' [] st = Inr st"
| "registerAll h pagesPath' (f # fs) st =
     (case registerCollection h pagesPath' st f of
        Inl msg \<Rightarrow> Inl msg
      | Inr st' \<Rightarrow> registerAll h pagesPath' fs st')"

text \<open>
  The pattern of the scan; the template literal of the source escapes each of its two
  backslashes. The hook first installs the error map, which only holds the texts of the
  six entries, and counts the feature in the telemetry when a file was found; neither
  changes the registry.
\<close>

definition templateGlob :: string where
  "templateGlob = ''**/'' @ [CHR 0x5C] @ ''{*'' @ [CHR 0x5C] @ ''}**''"

definition onPreInit :: "host \<Rightarrow> registry \<Rightarrow> string \<Rightarrow> diagnostic + registry" where
  "onPreInit h st pagesPath' =
     (let files = glob h templateGlob pagesPath' in
      case registerAll h pagesPath' files st of
        Inl msg \<Rightarrow> Inl (Diagnostic ''1'' msg)
      | Inr st' \<Rightarrow> Inr st')"

subsection \<open>The shape of a collection query\<close>

text \<open>
  The rule the spec gives for the query of a template: its outermost selection is the
  spread of the collection fragment, the fragment that the text of error-map entry 2
  names. The hooks of gatsby-node.ts never test it; the predicate states the case a
  claim is about.
\<close>

definition collectionFragment :: string where
  "collectionFragment = ''CollectionPagesQueryFragment''"




subsection \<open>The files behind the watch events\<close>


subsection \<open>A sample site\<close>

text \<open>
  A concrete environment on which the definitions are evaluated: a site under \<^verbatim>\<open>/site\<close>
  with two page files and three template files, a registry that follows
  \<open>registryCreate\<close> and \<open>registryDelete\<close>, and a heap of one parent node and two
  records, the first with the identifier of its parent and the second with the parent
  itself. The page wrapper of the sample makes no page for a file that the
  \<^verbatim>\<open>ignore\<close> option names and one page, at the route of the file, for any other.
\<close>

definition sampleCreatePath :: "string \<Rightarrow> string" where
  "sampleCreatePath file =
     ''/'' @ rev (drop 1 (dropWhile (\<lambda>c. c \<noteq> CHR ''.'') (rev file)))"

definition sampleJoin :: "string \<Rightarrow> string \<Rightarrow> string" where
  "sampleJoin dir file = dir @ ''/'' @ file"

definition sampleCreatePage ::
  "string \<Rightarrow> string \<Rightarrow> string list \<Rightarrow> page list \<Rightarrow> string + page list"
where
  "sampleCreatePage file dir ign ps =
     (if file \<in> set ign then Inr ps
      else Inr (registryCreate
                 \<lparr>path = sampleCreatePath file, component = sampleJoin dir file\<rparr> ps))"

definition sampleGlob :: "string \<Rightarrow> string \<Rightarrow> string list" where
  "sampleGlob pattern cwd =
     (if cwd \<noteq> ''src/pages'' then []
      else if pattern = ''**/*.{js,tsx}'' then [''about.js'', ''index.js'']
      else if pattern = templateGlob then [''{Post.slug}.js'', ''blog/{Post.id}.js'']
      else [])"

definition sampleQueryOf :: "string \<Rightarrow> string option" where
  "sampleQueryOf absolutePath =
     (if absolutePath = ''src/pages/{Post.slug}.js''
        then Some ''{ allPost { ...CollectionPagesQueryFragment } }''
      else if absolutePath = ''src/pages/blog/{Post.id}.js''
        then Some ''{ allPost { ...CollectionPagesQueryFragment } }''
      else if absolutePath = ''src/pages/{Author.id}.js''
        then Some ''{ allAuthor { id } }''
      else None)"

definition sampleParse :: "string \<Rightarrow> string + document" where
  "sampleParse queryString =
     (if queryString = ''{ allPost { ...CollectionPagesQueryFragment } }''
        then Inr [OperationDefinition [Field ''allPost'' [FragmentSpread collectionFragment]]]
      else if queryString = ''{ allAuthor { id } }''
        then Inr [OperationDefinition [Field ''allAuthor'' [Field ''id'' []]]]
      else Inl ''Syntax Error'')"

definition sampleGetNode :: "string \<Rightarrow> jsval" where
  "sampleGetNode ident = (if ident = ''post-1'' then JRef 0 else JUndefined)"

definition sampleValidatePathQuery :: "string \<Rightarrow> string list \<Rightarrow> string option" where
  "sampleValidatePathQuery filePath extensions =
     (case filePath of
        [] \<Rightarrow> Some ''PageCreator: the path is empty''
      | c # _ \<Rightarrow> if c = CHR ''/'' then Some ''PageCreator: the path starts with a slash'' else None)"

definition sampleDerivePath :: "string \<Rightarrow> heap \<Rightarrow> addr \<Rightarrow> string + string" where
  "sampleDerivePath filePath hp root =
     (case getProp hp root ''slug'' of
        JString slug \<Rightarrow>
          (case getProp hp root ''parent'' of
             JRef parent \<Rightarrow>
               (case getProp hp parent ''title'' of
                  JString title \<Rightarrow> Inr (''/'' @ title @ ''/'' @ slug)
                | _ \<Rightarrow> Inr (''/'' @ slug))
           | _ \<Rightarrow> Inr (''/'' @ slug))
      | _ \<Rightarrow> Inl ''PageCreator: Could not find value'')"

definition sampleHost :: host where
  "sampleHost =
     \<lparr>existsSync = (\<lambda>p. p = ''src/pages''),
      glob = sampleGlob,
      resolve = (\<lambda>p. ''/site/'' @ p),
      join = sampleJoin,
      createPath = sampleCreatePath,
      createPage = sampleCreatePage,
      deletePage = registryDelete,
      requireResolve = Inr,
      collectionExtractQueryString = (\<lambda>absolutePath. ([], sampleQueryOf absolutePath)),
      parse = sampleParse,
      getNode = sampleGetNode,
      validatePathQuery = sampleValidatePathQuery,
      derivePath = sampleDerivePath\<rparr>"




definition sampleEngine :: engine where
  "sampleEngine =
     \<lparr>pages = [\<lparr>path = ''/about'', component = ''/site/src/pages/about.js''\<rparr>,
               \<lparr>path = ''/index'', component = ''/site/src/pages/index.js''\<rparr>],
      knownFiles = {''about.js'', ''index.js''},
      pagesDirectory = ''/site/src/pages'',
      ignored = [],
      watchPath = ''src/pages'',
      watchGlob = ''**/*.{js,tsx}''\<rparr>"

definition helloRecord :: addr where
  "helloRecord = 1"

definition worldRecord :: addr where
  "worldRecord = 2"

definition sampleHeap :: heap where
  "sampleHeap =
     [[(''id'', JString ''post-1''), (''title'', JString ''news'')],
      [(''id'', JString ''md-1''), (''parent'', JString ''post-1''), (''slug'', JString ''hello'')],
      [(''id'', JString ''md-2''), (''parent'', JRef 0), (''slug'', JString ''world'')]]"

section \<open>Properties\<close>

subsection \<open>Evaluating the sample site\<close>


subsection \<open>The loop of the remove handler\<close>

lemma foldl_deletePage_none:
  "\<forall>pg\<in>set qs. component pg \<noteq> c \<Longrightarrow>
   foldl (\<lambda>ps pg. if component pg = c then d ps else ps) acc qs = acc"
  by (induction qs arbitrary: acc) simp_all

subsection \<open>The known files\<close>








subsection \<open>The add handler\<close>

lemma known_adds:
  "p \<in> knownFiles e \<Longrightarrow> processEvents h e (replicate n (Added p)) = Inr e"
  by (induction n) (simp_all add: onFileAdded_def)

text \<open>
  Claim C2. An added event for a path that is already in \<^verbatim>\<open>knownFiles\<close> changes nothing
  and calls no page creation. For a path that is not known the handler calls
  \<^verbatim>\<open>createPage\<close> once on the current store and, when the call returns, inserts the path
  (an exception of the call ends the session in a panic). Hence any positive number of
  added events for one path does what a single one does: the page is created once.
\<close>

theorem onFileAdded_idempotent:
  "(p \<in> knownFiles e \<longrightarrow> onFileAdded h e p = Inr e) \<and>
   (p \<notin> knownFiles e \<longrightarrow>
      onFileAdded h e p =
        (case createPage h p (pagesDirectory e) (ignored e) (pages e) of
           Inl msg \<Rightarrow> Inl (Diagnostic ''1'' msg, pages e)
         | Inr ps \<Rightarrow> Inr (e\<lparr>pages := ps, knownFiles := insert p (knownFiles e)\<rparr>))) \<and>
   processEvents h e (replicate (Suc n) (Added p)) = onFileAdded h e p"
proof (intro conjI impI)
  show "processEvents h e (replicate (Suc n) (Added p)) = onFileAdded h e p"
  proof (cases "onFileAdded h e p")
    case (Inl d)
    then show ?thesis by simp
  next
    case (Inr e')
    then have "p \<in> knownFiles e'"
      by (auto simp: onFileAdded_def split: if_splits sum.splits)
    then show ?thesis using Inr by (simp add: known_adds)
  qed
qed (simp_all add: onFileAdded_def)

theorem onFileAdded_idempotent_witness:
  "''about.js'' \<in> knownFiles sampleEngine \<and>
   onFileAdded sampleHost sampleEngine ''about.js'' = Inr sampleEngine \<and>
   ''new.js'' \<notin> knownFiles sampleEngine \<and>
   processEvents sampleHost sampleEngine (replicate (Suc 2) (Added ''new.js'')) =
     Inr (sampleEngine
       \<lparr>pages := pages sampleEngine @
                 [\<lparr>path = ''/new'', component = ''/site/src/pages/new.js''\<rparr>],
        knownFiles := insert ''new.js'' (knownFiles sampleEngine)\<rparr>)"
proof -
  have k: "''about.js'' \<in> knownFiles sampleEngine" "''new.js'' \<notin> knownFiles sampleEngine"
    by (simp_all add: sampleEngine_def)
  have c: "createPage sampleHost ''new.js'' (pagesDirectory sampleEngine)
             (ignored sampleEngine) (pages sampleEngine) =
           Inr (pages sampleEngine @
                  [\<lparr>path = ''/new'', component = ''/site/src/pages/new.js''\<rparr>])"
    by (simp add: sampleHost_def sampleEngine_def sampleCreatePage_def registryCreate_def
        sampleCreatePath_def sampleJoin_def)
  from onFileAdded_idempotent [of "''about.js''" sampleEngine sampleHost 0] k(1)
  have a: "onFileAdded sampleHost sampleEngine ''about.js'' = Inr sampleEngine" by blast
  from onFileAdded_idempotent [of "''new.js''" sampleEngine sampleHost 2] k(2)
  have "processEvents sampleHost sampleEngine (replicate (Suc 2) (Added ''new.js'')) =
        (case createPage sampleHost ''new.js'' (pagesDirectory sampleEngine)
                (ignored sampleEngine) (pages sampleEngine) of
           Inl msg \<Rightarrow> Inl (Diagnostic ''1'' msg, pages sampleEngine)
         | Inr ps \<Rightarrow>
             Inr (sampleEngine\<lparr>pages := ps,
                    knownFiles := insert ''new.js'' (knownFiles sampleEngine)\<rparr>))"
    by presburger
  with k a show ?thesis by (simp only: c sum.case simp_thms)
qed

subsection \<open>The remove handler\<close>

text \<open>
  Claim C3. For every path the remove handler returns normally and takes the path out of
  \<^verbatim>\<open>knownFiles\<close>, whether or not a page of that component was in the store. For a
  path that is not known and has no page of its own the event changes nothing.
\<close>

theorem onFileRemoved_tolerant:
  "(\<exists>e'. onFileRemoved h e p = Inr e' \<and> knownFiles e' = knownFiles e - {p}) \<and>
   ((\<forall>pg\<in>set (pages e). component pg \<noteq> join h (pagesDirectory e) p) \<longrightarrow>
      p \<notin> knownFiles e \<longrightarrow> onFileRemoved h e p = Inr e)"
  by (auto simp: onFileRemoved_def Let_def deleteMatching_def foldl_deletePage_none)

theorem onFileRemoved_tolerant_witness:
  "''ghost.js'' \<notin> knownFiles sampleEngine \<and>
   onFileRemoved sampleHost sampleEngine ''ghost.js'' = Inr sampleEngine"
proof -
  have k: "''ghost.js'' \<notin> knownFiles sampleEngine"
    by (simp add: sampleEngine_def)
  have n: "\<forall>pg\<in>set (pages sampleEngine).
             component pg \<noteq> join sampleHost (pagesDirectory sampleEngine) ''ghost.js''"
    by (simp add: sampleEngine_def sampleHost_def sampleJoin_def)
  from onFileRemoved_tolerant [of sampleHost sampleEngine "''ghost.js''"] k n
  show ?thesis by blast
qed

text \<open>
  Claim C4. The remove handler is run on a store that holds the two pages of the
  collection template \<^verbatim>\<open>{Post.slug}.js\<close>, whose routes come from the data and not from
  the file name. Both pages have the component of the removed path, and both are still
  in the store after the event: the handler asked the registry to delete the route
  \<^verbatim>\<open>createPath(removedPath)\<close>, twice, and never the routes of the pages it found.
\<close>

theorem onFileRemoved_keeps_template_pages:
  "onFileRemoved sampleHost
     (sampleEngine
       \<lparr>pages := [\<lparr>path = ''/hello'', component = ''/site/src/pages/{Post.slug}.js''\<rparr>,
                  \<lparr>path = ''/world'', component = ''/site/src/pages/{Post.slug}.js''\<rparr>],
        knownFiles := {''{Post.slug}.js''}\<rparr>)
     ''{Post.slug}.js'' =
   Inr (sampleEngine
       \<lparr>pages := [\<lparr>path = ''/hello'', component = ''/site/src/pages/{Post.slug}.js''\<rparr>,
                  \<lparr>path = ''/world'', component = ''/site/src/pages/{Post.slug}.js''\<rparr>],
        knownFiles := {}\<rparr>) \<and>
   join sampleHost (pagesDirectory sampleEngine) ''{Post.slug}.js'' =
     ''/site/src/pages/{Post.slug}.js'' \<and>
   createPath sampleHost ''{Post.slug}.js'' = ''/{Post.slug}''"
  by (simp add: onFileRemoved_def Let_def deleteMatching_def sampleHost_def sampleEngine_def
      registryDelete_def sampleCreatePath_def sampleJoin_def)

subsection \<open>The configuration checks\<close>

text \<open>
  Claim C6, as amended. When the \<^verbatim>\<open>path\<close> option is missing or empty, or when
  \<^verbatim>\<open>pathCheck\<close> is not switched off and the path does not exist on disk,
  \<^verbatim>\<open>createPagesStatefully\<close> ends in a panic of error-map entry 1 with the store as it
  was given: whatever the file enumeration and the page wrapper of the host would do, no
  page is created and no engine is returned to watch the directory.
\<close>

theorem createPagesStatefully_configuration_panic:
  "(pagesPath opts = None \<or> pagesPath opts = Some [] \<longrightarrow>
      createPagesStatefully h store extensions opts =
        Inl (Diagnostic ''1'' pathRequired, store)) \<and>
   (pagesPath opts = Some p \<and> p \<noteq> [] \<and> pathCheck opts \<noteq> Some False \<and> \<not> existsSync h p \<longrightarrow>
      createPagesStatefully h store extensions opts =
        Inl (Diagnostic ''1'' (pathDoesNotExist p), store))"
  by (auto simp: createPagesStatefully_def split: option.splits)

theorem createPagesStatefully_configuration_panic_witness:
  "createPagesStatefully sampleHost [] [''.js'', ''.tsx'']
     \<lparr>pagesPath = None, pathCheck = None, ignore = []\<rparr> =
     Inl (Diagnostic ''1'' pathRequired, []) \<and>
   \<not> existsSync sampleHost ''missing'' \<and>
   createPagesStatefully sampleHost [] [''.js'', ''.tsx'']
     \<lparr>pagesPath = Some ''missing'', pathCheck = Some True, ignore = []\<rparr> =
     Inl (Diagnostic ''1'' (pathDoesNotExist ''missing''), [])"
proof -
  have m: "\<not> existsSync sampleHost ''missing''"
    by (simp add: sampleHost_def)
  from createPagesStatefully_configuration_panic
    [of "\<lparr>pagesPath = None, pathCheck = None, ignore = []\<rparr>" sampleHost "[]"
        "[''.js'', ''.tsx'']" "''missing''"]
  have a: "createPagesStatefully sampleHost [] [''.js'', ''.tsx'']
     \<lparr>pagesPath = None, pathCheck = None, ignore = []\<rparr> =
     Inl (Diagnostic ''1'' pathRequired, [])" by simp
  from createPagesStatefully_configuration_panic
    [of "\<lparr>pagesPath = Some ''missing'', pathCheck = Some True, ignore = []\<rparr>" sampleHost "[]"
        "[''.js'', ''.tsx'']" "''missing''"] m
  have b: "createPagesStatefully sampleHost [] [''.js'', ''.tsx'']
     \<lparr>pagesPath = Some ''missing'', pathCheck = Some True, ignore = []\<rparr> =
     Inl (Diagnostic ''1'' (pathDoesNotExist ''missing''), [])" by simp
  from a b m show ?thesis by blast
qed

text \<open>
  Claim C6 as stated fails: with \<^verbatim>\<open>pathCheck: false\<close> a path that does not exist on
  disk raises no panic. The scan runs, finds no file, and the watch session is started
  on the missing path.
\<close>

theorem createPagesStatefully_pathCheck_off_counterexample:
  "\<not> existsSync sampleHost ''missing'' \<and>
   createPagesStatefully sampleHost [] [''.js'', ''.tsx'']
     \<lparr>pagesPath = Some ''missing'', pathCheck = Some False, ignore = []\<rparr> =
   Inr \<lparr>pages = [], knownFiles = {}, pagesDirectory = ''/site/missing'', ignored = [],
        watchPath = ''missing'', watchGlob = ''**/*.{js,tsx}''\<rparr>"
  by (simp add: createPagesStatefully_def sampleHost_def sampleGlob_def)

subsection \<open>The resolver\<close>

lemma propertiesOf_append [simp]:
  "propertiesOf (hp @ [ob]) a = (if a = length hp then ob else propertiesOf hp a)"
  by (simp add: propertiesOf_def nth_append)

text \<open>Reading the source after the copy was made reads what was there before.\<close>

lemma getProp_copy:
  "getProp (hp @ [propertiesOf hp source]) source k = getProp hp source k"
  by (simp add: getProp_def)

lemma gatsbyPath_heap:
  "snd (gatsbyPath h extensions hp source filePath) =
     hp @ [case getProp hp source ''parent'' of
             JString ident \<Rightarrow> AList.update ''parent'' (getNode h ident) (propertiesOf hp source)
           | _ \<Rightarrow> propertiesOf hp source]"
  by (simp add: gatsbyPath_def Let_def getProp_copy setProp_def
      split: jsval.splits option.splits)

lemma gatsbyPath_result:
  "fst (gatsbyPath h extensions hp source filePath) =
     (case validatePathQuery h filePath extensions of
        Some msg \<Rightarrow> Inl msg
      | None \<Rightarrow>
          derivePath h filePath (snd (gatsbyPath h extensions hp source filePath)) (length hp))"
  by (simp add: gatsbyPath_def Let_def split: jsval.splits option.splits)

lemma gatsbyPath_lookup_cong:
  assumes "validatePathQuery h' = validatePathQuery h"
    and "derivePath h' = derivePath h"
    and "\<And>ident. getProp hp source ''parent'' = JString ident \<Longrightarrow>
           getNode h' ident = getNode h ident"
  shows "gatsbyPath h' extensions hp source filePath =
         gatsbyPath h extensions hp source filePath"
  using assms
  by (cases "getProp hp source ''parent''")
    (simp_all add: gatsbyPath_def Let_def getProp_copy split: option.splits)

lemma sample_parent:
  "getProp sampleHeap helloRecord ''parent'' = JString ''post-1''"
  "getProp sampleHeap worldRecord ''parent'' = JRef 0"
  "propertiesOf sampleHeap helloRecord =
     [(''id'', JString ''md-1''), (''parent'', JString ''post-1''), (''slug'', JString ''hello'')]"
  "propertiesOf sampleHeap worldRecord =
     [(''id'', JString ''md-2''), (''parent'', JRef 0), (''slug'', JString ''world'')]"
  by (simp_all add: getProp_def propertiesOf_def sampleHeap_def helloRecord_def worldRecord_def)

text \<open>
  Claim C7. The resolver follows the parent by one hop and only when it is a string.
  When \<^verbatim>\<open>source.parent\<close> is a string, the object handed to \<^verbatim>\<open>derivePath\<close> is the copy of
  the source whose \<^verbatim>\<open>parent\<close> holds what \<^verbatim>\<open>getNode\<close> returned for that string, as
  returned, and no other lookup matters. When \<^verbatim>\<open>source.parent\<close> is absent or is not a
  string, the object is the plain copy and the result is the same for every node lookup.
  In both cases the route is what \<^verbatim>\<open>derivePath\<close> computes on that object.
\<close>

theorem gatsbyPath_parent_one_hop:
  "(getProp hp source ''parent'' = JString ident \<longrightarrow>
      snd (gatsbyPath h extensions hp source filePath) =
        hp @ [AList.update ''parent'' (getNode h ident) (propertiesOf hp source)] \<and>
      getProp (snd (gatsbyPath h extensions hp source filePath)) (length hp) ''parent'' =
        getNode h ident \<and>
      (lookup ident = getNode h ident \<longrightarrow>
         gatsbyPath (h\<lparr>getNode := lookup\<rparr>) extensions hp source filePath =
         gatsbyPath h extensions hp source filePath)) \<and>
   ((\<forall>i. getProp hp source ''parent'' \<noteq> JString i) \<longrightarrow>
      snd (gatsbyPath h extensions hp source filePath) = hp @ [propertiesOf hp source] \<and>
      gatsbyPath (h\<lparr>getNode := lookup\<rparr>) extensions hp source filePath =
        gatsbyPath h extensions hp source filePath) \<and>
   (validatePathQuery h filePath extensions = None \<longrightarrow>
      fst (gatsbyPath h extensions hp source filePath) =
        derivePath h filePath (snd (gatsbyPath h extensions hp source filePath)) (length hp))"
proof (intro conjI impI)
  assume s: "getProp hp source ''parent'' = JString ident"
  then show "snd (gatsbyPath h extensions hp source filePath) =
        hp @ [AList.update ''parent'' (getNode h ident) (propertiesOf hp source)]"
    by (simp add: gatsbyPath_heap)
  then show "getProp (snd (gatsbyPath h extensions hp source filePath)) (length hp) ''parent'' =
        getNode h ident"
    by (simp add: getProp_def update_conv')
  assume "lookup ident = getNode h ident"
  with s show "gatsbyPath (h\<lparr>getNode := lookup\<rparr>) extensions hp source filePath =
        gatsbyPath h extensions hp source filePath"
    by (intro gatsbyPath_lookup_cong) simp_all
next
  assume n: "\<forall>i. getProp hp source ''parent'' \<noteq> JString i"
  then show "snd (gatsbyPath h extensions hp source filePath) = hp @ [propertiesOf hp source]"
    by (simp add: gatsbyPath_heap split: jsval.splits)
  from n show "gatsbyPath (h\<lparr>getNode := lookup\<rparr>) extensions hp source filePath =
        gatsbyPath h extensions hp source filePath"
    by (intro gatsbyPath_lookup_cong) simp_all
next
  assume "validatePathQuery h filePath extensions = None"
  then show "fst (gatsbyPath h extensions hp source filePath) =
        derivePath h filePath (snd (gatsbyPath h extensions hp source filePath)) (length hp)"
    by (simp add: gatsbyPath_result)
qed

theorem gatsbyPath_parent_one_hop_witness:
  "getProp sampleHeap helloRecord ''parent'' = JString ''post-1'' \<and>
   snd (gatsbyPath sampleHost [''.js''] sampleHeap helloRecord ''{Post.slug}'') =
     sampleHeap @
       [[(''id'', JString ''md-1''), (''parent'', JRef 0), (''slug'', JString ''hello'')]] \<and>
   getProp sampleHeap worldRecord ''parent'' = JRef 0 \<and>
   snd (gatsbyPath sampleHost [''.js''] sampleHeap worldRecord ''{Post.slug}'') =
     sampleHeap @
       [[(''id'', JString ''md-2''), (''parent'', JRef 0), (''slug'', JString ''world'')]]"
proof -
  from gatsbyPath_parent_one_hop
    [of sampleHeap helloRecord "''post-1''" sampleHost "[''.js'']" "''{Post.slug}''" "getNode sampleHost"]
  have a: "snd (gatsbyPath sampleHost [''.js''] sampleHeap helloRecord ''{Post.slug}'') =
     sampleHeap @
       [AList.update ''parent'' (getNode sampleHost ''post-1'') (propertiesOf sampleHeap helloRecord)]"
    by (simp add: sample_parent)
  have n: "\<forall>i. getProp sampleHeap worldRecord ''parent'' \<noteq> JString i"
    by (simp add: sample_parent)
  from gatsbyPath_parent_one_hop
    [of sampleHeap worldRecord "''post-1''" sampleHost "[''.js'']" "''{Post.slug}''" "getNode sampleHost"] n
  have b: "snd (gatsbyPath sampleHost [''.js''] sampleHeap worldRecord ''{Post.slug}'') =
     sampleHeap @ [propertiesOf sampleHeap worldRecord]"
    by blast
  from a b show ?thesis
    by (simp add: sample_parent sampleHost_def sampleGetNode_def)
qed

text \<open>
  Claim C10. The resolver leaves every object that existed before the call as it was:
  the heap after the call is the heap before it with the copy added at the end. In
  particular the properties of the source, its \<^verbatim>\<open>parent\<close> among them, are unchanged,
  also when the copy's \<^verbatim>\<open>parent\<close> was replaced by the node found.
\<close>

theorem gatsbyPath_leaves_source:
  "take (length hp) (snd (gatsbyPath h extensions hp source filePath)) = hp \<and>
   length (snd (gatsbyPath h extensions hp source filePath)) = Suc (length hp) \<and>
   (source < length hp \<longrightarrow>
      propertiesOf (snd (gatsbyPath h extensions hp source filePath)) source =
        propertiesOf hp source \<and>
      getProp (snd (gatsbyPath h extensions hp source filePath)) source ''parent'' =
        getProp hp source ''parent'')"
  by (simp add: gatsbyPath_heap getProp_def)

theorem gatsbyPath_leaves_source_witness:
  "helloRecord < length sampleHeap \<and>
   getProp (snd (gatsbyPath sampleHost [''.js''] sampleHeap helloRecord ''{Post.slug}'')) helloRecord
     ''parent'' = JString ''post-1'' \<and>
   getProp (snd (gatsbyPath sampleHost [''.js''] sampleHeap helloRecord ''{Post.slug}''))
     (length sampleHeap) ''parent'' = JRef 0"
proof -
  have l: "helloRecord < length sampleHeap"
    by (simp add: sampleHeap_def helloRecord_def)
  from gatsbyPath_leaves_source [of sampleHeap sampleHost "[''.js'']" helloRecord "''{Post.slug}''"] l
  have "getProp (snd (gatsbyPath sampleHost [''.js''] sampleHeap helloRecord ''{Post.slug}''))
          helloRecord ''parent'' = getProp sampleHeap helloRecord ''parent''"
    by blast
  moreover
  have "getProp (snd (gatsbyPath sampleHost [''.js''] sampleHeap helloRecord ''{Post.slug}''))
          (length sampleHeap) ''parent'' = JRef 0"
    by (simp add: gatsbyPath_heap sample_parent getProp_def sampleHost_def sampleGetNode_def)
  ultimately show ?thesis using l by (simp add: sample_parent)
qed

subsection \<open>The collection registry\<close>

lemma registerCollection_ok:
  assumes "requireResolve h (join h pp f) = Inr a"
    and "collectionExtractQueryString h a = (r, Some q)"
    and "q \<noteq> []"
    and "parse h q = Inr ast"
    and "firstSelectionName ast = Inr k"
  shows "registerCollection h pp st f =
         Inr \<lparr>knownCollections = (knownCollections st)(k \<mapsto> f), reported = reported st @ r\<rparr>"
  using assms by (simp add: registerCollection_def Let_def)

text \<open>
  Claim C8. Two template files whose queries have the same first selection name are
  both registered, in the order of the scan, without a panic and without a diagnostic of
  the hook: after the scan the name maps to the second file, the entry of the first one
  is overwritten.
\<close>

theorem knownCollections_last_write_wins:
  assumes g: "glob h templateGlob pp = [f1, f2]"
    and a1: "requireResolve h (join h pp f1) = Inr a1"
    and x1: "collectionExtractQueryString h a1 = (r1, Some q1)"
    and n1: "q1 \<noteq> []"
    and p1: "parse h q1 = Inr ast1"
    and k1: "firstSelectionName ast1 = Inr k"
    and a2: "requireResolve h (join h pp f2) = Inr a2"
    and x2: "collectionExtractQueryString h a2 = (r2, Some q2)"
    and n2: "q2 \<noteq> []"
    and p2: "parse h q2 = Inr ast2"
    and k2: "firstSelectionName ast2 = Inr k"
  shows "onPreInit h st pp =
         Inr \<lparr>knownCollections = (knownCollections st)(k \<mapsto> f2),
              reported = reported st @ r1 @ r2\<rparr>"
  by (simp add: onPreInit_def g registerCollection_ok [OF a1 x1 n1 p1 k1]
      registerCollection_ok [OF a2 x2 n2 p2 k2])

theorem knownCollections_last_write_wins_witness:
  "onPreInit sampleHost \<lparr>knownCollections = Map.empty, reported = []\<rparr> ''src/pages'' =
   Inr \<lparr>knownCollections = [''allPost'' \<mapsto> ''blog/{Post.id}.js''], reported = []\<rparr>"
proof -
  have g: "glob sampleHost templateGlob ''src/pages'' =
           [''{Post.slug}.js'', ''blog/{Post.id}.js'']"
    by (simp add: sampleHost_def sampleGlob_def templateGlob_def)
  have a1: "requireResolve sampleHost (join sampleHost ''src/pages'' ''{Post.slug}.js'') =
            Inr ''src/pages/{Post.slug}.js''"
    by (simp add: sampleHost_def sampleJoin_def)
  have x1: "collectionExtractQueryString sampleHost ''src/pages/{Post.slug}.js'' =
            ([], Some ''{ allPost { ...CollectionPagesQueryFragment } }'')"
    by (simp add: sampleHost_def sampleQueryOf_def)
  have a2: "requireResolve sampleHost (join sampleHost ''src/pages'' ''blog/{Post.id}.js'') =
            Inr ''src/pages/blog/{Post.id}.js''"
    by (simp add: sampleHost_def sampleJoin_def)
  have x2: "collectionExtractQueryString sampleHost ''src/pages/blog/{Post.id}.js'' =
            ([], Some ''{ allPost { ...CollectionPagesQueryFragment } }'')"
    by (simp add: sampleHost_def sampleQueryOf_def)
  have n: "''{ allPost { ...CollectionPagesQueryFragment } }'' \<noteq> []" by simp
  have p: "parse sampleHost ''{ allPost { ...CollectionPagesQueryFragment } }'' =
           Inr [OperationDefinition [Field ''allPost'' [FragmentSpread collectionFragment]]]"
    by (simp add: sampleHost_def sampleParse_def)
  have k: "firstSelectionName
             [OperationDefinition [Field ''allPost'' [FragmentSpread collectionFragment]]] =
           Inr ''allPost''"
    by (simp add: firstSelectionName_def selectionSetOf_def)
  from knownCollections_last_write_wins [OF g a1 x1 n p k a2 x2 n p k,
      of "\<lparr>knownCollections = Map.empty, reported = []\<rparr>"]
  show ?thesis by simp
qed

subsection \<open>Queries of another shape\<close>







end
